theory Spec2Isabelle
  imports Complex_Main
begin

section \<open>Python values and the runtime primitives the client relies on\<close>

text \<open>
  The response normalizer of \<^verbatim>\<open>WebUIClient\<close> works on the value returned by
  \<^verbatim>\<open>response.json()\<close>: any JSON value, decoded into Python's \<^verbatim>\<open>None\<close>,
  \<^verbatim>\<open>bool\<close>, \<^verbatim>\<open>int\<close>, \<^verbatim>\<open>float\<close>, \<^verbatim>\<open>str\<close>, \<^verbatim>\<open>list\<close> and \<^verbatim>\<open>dict\<close>.
  A dict keeps its insertion order and is an association list here (looked up with
  \<^const>\<open>map_of\<close>; a decoded object has distinct keys, and the functions are total on any
  list); a Python \<^verbatim>\<open>str\<close> is a \<^typ>\<open>string\<close> whose characters stand for code
  points below 256. The methods keep their names without the leading underscore. Floats are a type parameter \<open>'f\<close>: their arithmetic, their zero test and
  their printed form belong to the Python runtime and are taken from a record of
  primitives, together with \<^verbatim>\<open>hash\<close> on strings (salted per process) and
  \<^verbatim>\<open>json.loads\<close>.
\<close>

datatype 'f json =
    JNull
  | JBool bool
  | JInt int
  | JFloat 'f
  | JStr string
  | JList "'f json list"
  | JDict "(string \<times> 'f json) list"

datatype pyerr = TypeError | AttributeError | KeyError | IndexError | JSONDecodeError

record 'f runtime =
  float_is_zero :: "'f \<Rightarrow> bool"
  float_rsub1 :: "'f \<Rightarrow> 'f"
  float_repr :: "'f \<Rightarrow> string"
  str_hash :: "string \<Rightarrow> int"
  json_loads :: "string \<Rightarrow> 'f json option"

text \<open>
  \<open>float_is_zero d\<close> is \<^verbatim>\<open>d == 0\<close>, \<open>float_rsub1 d\<close> is \<^verbatim>\<open>1 - d\<close>, \<open>float_repr d\<close> is
  \<^verbatim>\<open>repr(d)\<close>, \<open>str_hash s\<close> is \<^verbatim>\<open>hash(s)\<close>, and \<open>json_loads s\<close> is \<^verbatim>\<open>json.loads(s)\<close>, with
  \<open>None\<close> where it raises \<^verbatim>\<open>JSONDecodeError\<close>.
\<close>

definition ebind :: "pyerr + 'a \<Rightarrow> ('a \<Rightarrow> pyerr + 'b) \<Rightarrow> pyerr + 'b" where
  "ebind m f = (case m of Inl e \<Rightarrow> Inl e | Inr v \<Rightarrow> f v)"

definition emap :: "('a \<Rightarrow> 'b) \<Rightarrow> pyerr + 'a \<Rightarrow> pyerr + 'b" where
  "emap f m = (case m of Inl e \<Rightarrow> Inl e | Inr v \<Rightarrow> Inr (f v))"

subsection \<open>Truthiness and \<^verbatim>\<open>or\<close>\<close>

fun truthy :: "'f runtime \<Rightarrow> 'f json \<Rightarrow> bool" where
  "truthy rt JNull = False"
| "truthy rt (JBool b) = b"
| "truthy rt (JInt n) = (n \<noteq> 0)"
| "truthy rt (JFloat d) = (\<not> float_is_zero rt d)"
| "truthy rt (JStr s) = (s \<noteq> [])"
| "truthy rt (JList xs) = (xs \<noteq> [])"
| "truthy rt (JDict kvs) = (kvs \<noteq> [])"

definition py_or :: "'f runtime \<Rightarrow> 'f json \<Rightarrow> 'f json \<Rightarrow> 'f json" where
  "py_or rt a b = (if truthy rt a then a else b)"

subsection \<open>Strings: \<^verbatim>\<open>strip\<close>, \<^verbatim>\<open>join\<close>, \<^verbatim>\<open>startswith\<close>, \<^verbatim>\<open>in\<close>\<close>

definition is_space :: "char \<Rightarrow> bool" where
  "is_space c = (let n = (of_char c :: nat) in
     (9 \<le> n \<and> n \<le> 13) \<or> (28 \<le> n \<and> n \<le> 32) \<or> n = 133 \<or> n = 160)"

definition strip :: "string \<Rightarrow> string" where
  "strip s = rev (dropWhile is_space (rev (dropWhile is_space s)))"

fun join :: "string \<Rightarrow> string list \<Rightarrow> string" where
  "join sep [] = []"
| "join sep [x] = x"
| "join sep (x # y # ys) = x @ sep @ join sep (y # ys)"

definition startswith :: "string \<Rightarrow> string \<Rightarrow> bool" where
  "startswith s p = (take (length p) s = p)"

fun is_substring :: "string \<Rightarrow> string \<Rightarrow> bool" where
  "is_substring p [] = (p = [])"
| "is_substring p (c # cs) = (startswith (c # cs) p \<or> is_substring p cs)"

subsection \<open>\<^verbatim>\<open>str\<close> and \<^verbatim>\<open>repr\<close>\<close>

fun nat_digits :: "nat \<Rightarrow> string" where
  "nat_digits n =
     (if n < 10 then [''0123456789'' ! n]
      else nat_digits (n div 10) @ [''0123456789'' ! (n mod 10)])"

definition str_int :: "int \<Rightarrow> string" where
  "str_int i = (if i < 0 then CHR ''-'' # nat_digits (nat (- i)) else nat_digits (nat i))"

definition hex2 :: "nat \<Rightarrow> string" where
  "hex2 n = [''0123456789abcdef'' ! (n div 16), ''0123456789abcdef'' ! (n mod 16)]"

definition repr_quote :: "string \<Rightarrow> char" where
  "repr_quote s = (if CHR 0x27 \<in> set s \<and> CHR 0x22 \<notin> set s then CHR 0x22 else CHR 0x27)"

definition repr_char :: "char \<Rightarrow> char \<Rightarrow> string" where
  "repr_char q c = (let n = (of_char c :: nat) in
     if c = q \<or> c = CHR 0x5C then [CHR 0x5C, c]
     else if n = 9 then [CHR 0x5C, CHR ''t'']
     else if n = 10 then [CHR 0x5C, CHR ''n'']
     else if n = 13 then [CHR 0x5C, CHR ''r'']
     else if n < 32 \<or> n = 127 then [CHR 0x5C, CHR ''x''] @ hex2 n
     else if n < 127 then [c]
     else if n \<le> 160 \<or> n = 173 then [CHR 0x5C, CHR ''x''] @ hex2 n
     else [c])"

definition repr_str :: "string \<Rightarrow> string" where
  "repr_str s = (let q = repr_quote s in q # concat (map (repr_char q) s) @ [q])"

fun py_repr :: "'f runtime \<Rightarrow> 'f json \<Rightarrow> string" where
  "py_repr rt JNull = ''None''"
| "py_repr rt (JBool b) = (if b then ''True'' else ''False'')"
| "py_repr rt (JInt n) = str_int n"
| "py_repr rt (JFloat d) = float_repr rt d"
| "py_repr rt (JStr s) = repr_str s"
| "py_repr rt (JList xs) = ''['' @ join '', '' (map (py_repr rt) xs) @ '']''"
| "py_repr rt (JDict kvs) =
     ''{'' @ join '', '' (map (\<lambda>kv. repr_str (fst kv) @ '': '' @ py_repr rt (snd kv)) kvs) @ ''}''"

fun py_str :: "'f runtime \<Rightarrow> 'f json \<Rightarrow> string" where
  "py_str rt (JStr s) = s"
| "py_str rt v = py_repr rt v"

subsection \<open>Membership, subscripts, \<^verbatim>\<open>dict.get\<close>, iteration\<close>

text \<open>\<^verbatim>\<open>k in v\<close> for a string \<open>k\<close>: key membership on a dict, element equality on a list,
  substring on a string, \<^verbatim>\<open>TypeError\<close> on everything else.\<close>

fun py_contains :: "string \<Rightarrow> 'f json \<Rightarrow> pyerr + bool" where
  "py_contains k (JDict kvs) = Inr (map_of kvs k \<noteq> None)"
| "py_contains k (JList xs) = Inr (JStr k \<in> set xs)"
| "py_contains k (JStr s) = Inr (is_substring k s)"
| "py_contains k v = Inl TypeError"

text \<open>\<^verbatim>\<open>v[k]\<close> for a string \<open>k\<close>.\<close>

fun py_getitem :: "'f json \<Rightarrow> string \<Rightarrow> pyerr + 'f json" where
  "py_getitem (JDict kvs) k = (case map_of kvs k of None \<Rightarrow> Inl KeyError | Some v \<Rightarrow> Inr v)"
| "py_getitem v k = Inl TypeError"

text \<open>\<^verbatim>\<open>v[0]\<close>; no key of a decoded JSON object equals the integer 0.\<close>

fun py_first :: "'f json \<Rightarrow> pyerr + 'f json" where
  "py_first (JList xs) = (case xs of [] \<Rightarrow> Inl IndexError | x # _ \<Rightarrow> Inr x)"
| "py_first (JStr s) = (case s of [] \<Rightarrow> Inl IndexError | c # _ \<Rightarrow> Inr (JStr [c]))"
| "py_first (JDict kvs) = Inl KeyError"
| "py_first v = Inl TypeError"

text \<open>\<^verbatim>\<open>v.get(k, d)\<close>: only a dict has the method.\<close>

fun py_get :: "'f json \<Rightarrow> string \<Rightarrow> 'f json \<Rightarrow> pyerr + 'f json" where
  "py_get (JDict kvs) k d = Inr (case map_of kvs k of None \<Rightarrow> d | Some v \<Rightarrow> v)"
| "py_get v k d = Inl AttributeError"

definition dict_get :: "(string \<times> 'f json) list \<Rightarrow> string \<Rightarrow> 'f json \<Rightarrow> 'f json" where
  "dict_get kvs k d = (case map_of kvs k of None \<Rightarrow> d | Some v \<Rightarrow> v)"

text \<open>\<^verbatim>\<open>for x in v\<close>: the elements of a list, the keys of a dict, the characters of a
  string.\<close>

fun py_iter :: "'f json \<Rightarrow> pyerr + 'f json list" where
  "py_iter (JList xs) = Inr xs"
| "py_iter (JDict kvs) = Inr (map (\<lambda>kv. JStr (fst kv)) kvs)"
| "py_iter (JStr s) = Inr (map (\<lambda>c. JStr [c]) s)"
| "py_iter v = Inl TypeError"

fun py_strip :: "'f json \<Rightarrow> pyerr + string" where
  "py_strip (JStr s) = Inr (strip s)"
| "py_strip v = Inl AttributeError"

section \<open>Deduplication\<close>

text \<open>
  \<^verbatim>\<open>_deduplicate_sources\<close>. The key of a record is built inside a \<^verbatim>\<open>try\<close>; the only
  operation there that can raise on a JSON value is \<^verbatim>\<open>source.get\<close> on a value that is
  not a dict, and the handler then appends the record without a key.
\<close>

definition key_part :: "'f runtime \<Rightarrow> string \<Rightarrow> string \<Rightarrow> 'f json \<Rightarrow> pyerr + string list" where
  "key_part rt label field source =
     ebind (py_get source field JNull) (\<lambda>v.
       if truthy rt v then Inr [label @ py_str rt v] else Inr [])"

definition key_parts :: "'f runtime \<Rightarrow> 'f json \<Rightarrow> pyerr + string list" where
  "key_parts rt source =
     ebind (key_part rt ''url:'' ''url'' source) (\<lambda>p1.
     ebind (key_part rt ''title:'' ''title'' source) (\<lambda>p2.
     ebind (key_part rt ''collection:'' ''collection_id'' source) (\<lambda>p3.
     ebind (key_part rt ''page:'' ''page'' source) (\<lambda>p4.
       Inr (p1 @ p2 @ p3 @ p4)))))"

definition source_key :: "'f runtime \<Rightarrow> 'f json \<Rightarrow> pyerr + string" where
  "source_key rt source =
     emap (\<lambda>parts. if parts \<noteq> [] then join ''|'' parts
                    else str_int (str_hash rt (py_str rt source)))
          (key_parts rt source)"

fun dedup_loop :: "'f runtime \<Rightarrow> string set \<Rightarrow> 'f json list \<Rightarrow> 'f json list" where
  "dedup_loop rt seen [] = []"
| "dedup_loop rt seen (source # sources) =
     (case source_key rt source of
        Inl e \<Rightarrow> source # dedup_loop rt seen sources
      | Inr key \<Rightarrow>
          if key \<noteq> [] \<and> key \<notin> seen then source # dedup_loop rt (insert key seen) sources
          else dedup_loop rt seen sources)"

definition deduplicate_sources :: "'f runtime \<Rightarrow> 'f json list \<Rightarrow> 'f json list" where
  "deduplicate_sources rt sources = dedup_loop rt {} sources"

section \<open>The generic field-shape parser\<close>

text \<open>
  \<^verbatim>\<open>_parse_source_field\<close>. Nothing inside its \<^verbatim>\<open>try\<close> can raise on a JSON value
  (\<^verbatim>\<open>isinstance\<close>, \<^verbatim>\<open>dict.get\<close> on a dict, \<^verbatim>\<open>str.startswith\<close> on a string), so the
  function is total. A record is the dict the source builds, with its keys in the source's
  order.
\<close>

definition source_of_object :: "'f runtime \<Rightarrow> (string \<times> 'f json) list \<Rightarrow> (string \<times> 'f json) list" where
  "source_of_object rt item =
     [(''title'', dict_get item ''title'' (JStr '''')),
      (''url'', py_or rt (py_or rt (dict_get item ''url'' (JStr '''')) (dict_get item ''link'' (JStr '''')))
                         (dict_get item ''source'' (JStr ''''))),
      (''snippet'', py_or rt (py_or rt (dict_get item ''snippet'' (JStr '''')) (dict_get item ''content'' (JStr '''')))
                             (dict_get item ''text'' (JStr ''''))),
      (''score'', py_or rt (dict_get item ''score'' (JInt 0)) (dict_get item ''relevance'' (JInt 0)))]"

definition object_sources :: "'f runtime \<Rightarrow> (string \<times> 'f json) list \<Rightarrow> 'f json list" where
  "object_sources rt item =
     (let source = source_of_object rt item in
      if truthy rt (dict_get source ''url'' JNull) \<or> truthy rt (dict_get source ''title'' JNull)
      then [JDict source] else [])"

definition url_only :: "string \<Rightarrow> 'f json" where
  "url_only s = JDict [(''url'', JStr s), (''title'', JStr ''''), (''snippet'', JStr ''''), (''score'', JInt 0)]"

fun parse_list_item :: "'f runtime \<Rightarrow> 'f json \<Rightarrow> 'f json list" where
  "parse_list_item rt (JDict item) = object_sources rt item"
| "parse_list_item rt (JStr s) = [url_only s]"
| "parse_list_item rt v = []"

definition parse_source_field :: "'f runtime \<Rightarrow> 'f json \<Rightarrow> 'f json list" where
  "parse_source_field rt source_field =
     (if \<not> truthy rt source_field then []
      else case source_field of
             JList items \<Rightarrow> concat (map (parse_list_item rt) items)
           | JDict item \<Rightarrow> object_sources rt item
           | JStr s \<Rightarrow> if startswith s ''http'' \<or> startswith s ''www'' then [url_only s] else []
           | _ \<Rightarrow> [])"

section \<open>The OpenWebUI source parser\<close>

text \<open>
  A \<^verbatim>\<open>for\<close> loop inside a \<^verbatim>\<open>try\<close> that appends to a list which outlives the handler:
  the loop yields what was appended before the exception, and the exception if there was
  one.
\<close>

fun for_each :: "('a \<Rightarrow> 'b list \<times> pyerr option) \<Rightarrow> 'a list \<Rightarrow> 'b list \<times> pyerr option" where
  "for_each step [] = ([], None)"
| "for_each step (x # xs) =
     (case step x of
        (out, Some e) \<Rightarrow> (out, Some e)
      | (out, None) \<Rightarrow> (case for_each step xs of (rest, r) \<Rightarrow> (out @ rest, r)))"

definition emit :: "pyerr + 'b list \<Rightarrow> 'b list \<times> pyerr option" where
  "emit m = (case m of Inl e \<Rightarrow> ([], Some e) | Inr out \<Rightarrow> (out, None))"

text \<open>\<^verbatim>\<open>xs[i]\<close> on a list raises \<^verbatim>\<open>IndexError\<close> out of range.\<close>

definition list_index :: "'a list \<Rightarrow> nat \<Rightarrow> pyerr + 'a" where
  "list_index xs i = (if i < length xs then Inr (xs ! i) else Inl IndexError)"

definition metadata_at :: "'f json list \<Rightarrow> nat \<Rightarrow> pyerr + 'f json" where
  "metadata_at metadata_list i =
     (if i < length metadata_list then list_index metadata_list i else Inr (JDict []))"

definition distance_at :: "'f json list \<Rightarrow> nat \<Rightarrow> pyerr + 'f json" where
  "distance_at distances i =
     (if i < length distances then list_index distances i else Inr (JInt 0))"

text \<open>\<^verbatim>\<open>1 - distance\<close>: a bool counts as the integer 0 or 1.\<close>

fun py_rsub1 :: "'f runtime \<Rightarrow> 'f json \<Rightarrow> pyerr + 'f json" where
  "py_rsub1 rt (JInt n) = Inr (JInt (1 - n))"
| "py_rsub1 rt (JFloat d) = Inr (JFloat (float_rsub1 rt d))"
| "py_rsub1 rt (JBool b) = Inr (JInt (1 - (if b then 1 else 0)))"
| "py_rsub1 rt v = Inl TypeError"

definition score_of :: "'f runtime \<Rightarrow> 'f json \<Rightarrow> pyerr + 'f json" where
  "score_of rt distance = (if truthy rt distance then py_rsub1 rt distance else Inr (JInt 0))"

definition snippet_of :: "'f runtime \<Rightarrow> 'f json \<Rightarrow> string" where
  "snippet_of rt doc_text =
     (if length (py_str rt doc_text) > 300 then take 300 (py_str rt doc_text) @ ''...''
      else py_str rt doc_text)"

text \<open>The fields read from a document's metadata, and the dict built for the document.\<close>

definition metadata_title :: "'f runtime \<Rightarrow> (string \<times> 'f json) list \<Rightarrow> 'f json" where
  "metadata_title rt metadata =
     py_or rt (py_or rt (dict_get metadata ''title'' (JStr '''')) (dict_get metadata ''ti'' (JStr '''')))
              (dict_get metadata ''name'' (JStr ''''))"

definition metadata_author :: "'f runtime \<Rightarrow> (string \<times> 'f json) list \<Rightarrow> 'f json" where
  "metadata_author rt metadata =
     py_or rt (dict_get metadata ''author'' (JStr '''')) (dict_get metadata ''au'' (JStr ''''))"

definition metadata_url :: "'f runtime \<Rightarrow> (string \<times> 'f json) list \<Rightarrow> 'f json" where
  "metadata_url rt metadata =
     py_or rt (dict_get metadata ''url'' (JStr '''')) (dict_get metadata ''hdl'' (JStr ''''))"

definition page_info :: "'f runtime \<Rightarrow> (string \<times> 'f json) list \<Rightarrow> string" where
  "page_info rt metadata =
     (if truthy rt (dict_get metadata ''page'' JNull)
      then ''Page '' @ py_str rt (dict_get metadata ''page'' (JStr ''''))
      else '''')"

definition document_source ::
  "'f runtime \<Rightarrow> 'f json \<Rightarrow> 'f json \<Rightarrow> (string \<times> 'f json) list \<Rightarrow> 'f json \<Rightarrow> 'f json
     \<Rightarrow> (string \<times> 'f json) list" where
  "document_source rt collection_id collection_type metadata doc_text score =
     [(''title'', metadata_title rt metadata),
      (''url'', metadata_url rt metadata),
      (''snippet'', JStr (snippet_of rt doc_text)),
      (''score'', score),
      (''author'', metadata_author rt metadata),
      (''page'', JStr (page_info rt metadata)),
      (''collection_id'', collection_id),
      (''collection_type'', collection_type),
      (''metadata'', JDict metadata)]"

text \<open>The body of the loop over \<^verbatim>\<open>enumerate(documents)\<close>: the record appended for
  document \<open>i\<close>, if it is kept. \<^verbatim>\<open>metadata.get\<close> raises \<^verbatim>\<open>AttributeError\<close> unless the
  metadata entry is a dict; \<^verbatim>\<open>1 - distance\<close> is evaluated after the metadata is read.\<close>

definition parse_document ::
  "'f runtime \<Rightarrow> 'f json \<Rightarrow> 'f json \<Rightarrow> 'f json list \<Rightarrow> 'f json list \<Rightarrow> nat \<times> 'f json
     \<Rightarrow> pyerr + 'f json list" where
  "parse_document rt collection_id collection_type metadata_list distances idoc =
     (case idoc of (i, doc_text) \<Rightarrow>
     ebind (metadata_at metadata_list i) (\<lambda>metadata_entry.
     ebind (distance_at distances i) (\<lambda>distance.
       case metadata_entry of
         JDict metadata \<Rightarrow>
           ebind (score_of rt distance) (\<lambda>score.
             let parsed_source =
                   document_source rt collection_id collection_type metadata doc_text score
             in Inr (if truthy rt (dict_get parsed_source ''title'' JNull)
                        \<or> truthy rt (dict_get parsed_source ''snippet'' JNull)
                        \<or> truthy rt (dict_get parsed_source ''url'' JNull)
                     then [JDict parsed_source] else []))
       | _ \<Rightarrow> Inl AttributeError)))"

definition as_list :: "'f runtime \<Rightarrow> 'f json \<Rightarrow> 'f json list" where
  "as_list rt v = (case v of JList xs \<Rightarrow> xs | _ \<Rightarrow> if truthy rt v then [v] else [])"

definition info_get :: "'f runtime \<Rightarrow> 'f json \<Rightarrow> string \<Rightarrow> pyerr + 'f json" where
  "info_get rt source_info k =
     (if truthy rt source_info then py_get source_info k (JStr '''') else Inr (JStr ''''))"

text \<open>One pass of the loop over \<^verbatim>\<open>sources_data\<close>; an item that is not a dict is skipped.\<close>

definition parse_group :: "'f runtime \<Rightarrow> 'f json \<Rightarrow> 'f json list \<times> pyerr option" where
  "parse_group rt source_item =
     (case source_item of
        JDict item \<Rightarrow>
          (case info_get rt (dict_get item ''source'' (JDict [])) ''id'' of
             Inl e \<Rightarrow> ([], Some e)
           | Inr collection_id \<Rightarrow>
               (case info_get rt (dict_get item ''source'' (JDict [])) ''type'' of
                  Inl e \<Rightarrow> ([], Some e)
                | Inr collection_type \<Rightarrow>
                    for_each
                      (\<lambda>idoc. emit (parse_document rt collection_id collection_type
                                 (as_list rt (dict_get item ''metadata'' (JList [])))
                                 (as_list rt (dict_get item ''distances'' (JList []))) idoc))
                      (enumerate 0 (as_list rt (dict_get item ''document'' (JList []))))))
      | _ \<Rightarrow> ([], None))"

definition parse_openwebui_sources :: "'f runtime \<Rightarrow> 'f json \<Rightarrow> 'f json list" where
  "parse_openwebui_sources rt sources_data =
     (case py_iter sources_data of
        Inl e \<Rightarrow> []
      | Inr items \<Rightarrow> fst (for_each (parse_group rt) items))"

section \<open>Sources in function and tool calls\<close>

definition sources_of_arguments :: "'f runtime \<Rightarrow> 'f json \<Rightarrow> pyerr + 'f json list" where
  "sources_of_arguments rt arguments =
     ebind (case arguments of
              JStr s \<Rightarrow> (case json_loads rt s of None \<Rightarrow> Inl JSONDecodeError | Some v \<Rightarrow> Inr v)
            | _ \<Rightarrow> Inr arguments) (\<lambda>args.
     ebind (py_contains ''sources'' args) (\<lambda>has_sources.
       if has_sources then emap (parse_source_field rt) (py_getitem args ''sources'') else Inr []))"

definition sources_of_call :: "'f runtime \<Rightarrow> 'f json \<Rightarrow> pyerr + 'f json list" where
  "sources_of_call rt func =
     ebind (py_contains ''function'' func) (\<lambda>has_function.
     ebind (if has_function then ebind (py_getitem func ''function'') (py_contains ''arguments'')
            else Inr False) (\<lambda>has_arguments.
       if has_arguments
       then ebind (py_getitem func ''function'') (\<lambda>function.
            ebind (py_getitem function ''arguments'') (sources_of_arguments rt))
       else Inr []))"

definition extract_sources_from_functions :: "'f runtime \<Rightarrow> 'f json \<Rightarrow> 'f json list" where
  "extract_sources_from_functions rt function_data =
     (case function_data of
        JList funcs \<Rightarrow> fst (for_each (\<lambda>func. emit (sources_of_call rt func)) funcs)
      | JDict d \<Rightarrow>
          fst (emit (ebind (py_contains ''arguments'' function_data) (\<lambda>has_arguments.
                 if has_arguments
                 then ebind (py_getitem function_data ''arguments'') (sources_of_arguments rt)
                 else Inr [])))
      | _ \<Rightarrow> [])"

section \<open>The source location scanner\<close>

definition source_fields :: "string list" where
  "source_fields =
     [''citations'', ''references'', ''links'', ''source_documents'', ''source_links'', ''metadata'']"

text \<open>\<^verbatim>\<open>for field in source_fields: if field in obj: sources.extend(...(obj[field]))\<close>,
  run on the response and on each choice's message. It runs inside the scanner's
  \<^verbatim>\<open>try\<close>, whose handler discards everything collected, so an exception is the
  whole result.\<close>

fun scan_fields :: "'f runtime \<Rightarrow> string list \<Rightarrow> 'f json \<Rightarrow> pyerr + 'f json list" where
  "scan_fields rt [] obj = Inr []"
| "scan_fields rt (field # others) obj =
     (case py_contains field obj of
        Inl e \<Rightarrow> Inl e
      | Inr present \<Rightarrow>
          (case (if present then emap (parse_source_field rt) (py_getitem obj field) else Inr []) of
             Inl e \<Rightarrow> Inl e
           | Inr found \<Rightarrow> emap (\<lambda>rest. found @ rest) (scan_fields rt others obj)))"

text \<open>\<^verbatim>\<open>choice.get('function_call') or choice.get('tool_calls', [])\<close>\<close>

definition function_data :: "'f runtime \<Rightarrow> 'f json \<Rightarrow> pyerr + 'f json" where
  "function_data rt choice =
     ebind (py_get choice ''function_call'' JNull) (\<lambda>function_call.
       if truthy rt function_call then Inr function_call
       else py_get choice ''tool_calls'' (JList []))"

definition scan_choice :: "'f runtime \<Rightarrow> 'f json \<Rightarrow> pyerr + 'f json list" where
  "scan_choice rt choice =
     ebind (py_contains ''message'' choice) (\<lambda>has_message.
     ebind (if has_message
            then ebind (py_getitem choice ''message'') (scan_fields rt source_fields)
            else Inr []) (\<lambda>from_message.
     ebind (py_contains ''function_call'' choice) (\<lambda>has_function_call.
     ebind (if has_function_call then Inr True else py_contains ''tool_calls'' choice) (\<lambda>has_calls.
     ebind (if has_calls
            then emap (extract_sources_from_functions rt) (function_data rt choice)
            else Inr []) (\<lambda>from_calls.
       Inr (from_message @ from_calls))))))"

fun scan_choices :: "'f runtime \<Rightarrow> 'f json list \<Rightarrow> pyerr + 'f json list" where
  "scan_choices rt [] = Inr []"
| "scan_choices rt (choice # choices) =
     (case scan_choice rt choice of
        Inl e \<Rightarrow> Inl e
      | Inr found \<Rightarrow> emap (\<lambda>rest. found @ rest) (scan_choices rt choices))"

text \<open>\<^verbatim>\<open>response_data.get('context') or response_data.get('retrieved_docs')\<close>\<close>

definition context_data :: "'f runtime \<Rightarrow> 'f json \<Rightarrow> pyerr + 'f json" where
  "context_data rt response_data =
     ebind (py_get response_data ''context'' JNull) (\<lambda>context.
       if truthy rt context then Inr context
       else py_get response_data ''retrieved_docs'' JNull)"

text \<open>The four locations, each yielding the records it appends to \<^verbatim>\<open>sources\<close>.\<close>

definition scan_openwebui :: "'f runtime \<Rightarrow> 'f json \<Rightarrow> pyerr + 'f json list" where
  "scan_openwebui rt response_data =
     ebind (py_contains ''sources'' response_data) (\<lambda>has_sources.
       if has_sources
       then emap (parse_openwebui_sources rt) (py_getitem response_data ''sources'')
       else Inr [])"

definition scan_all_choices :: "'f runtime \<Rightarrow> 'f json \<Rightarrow> pyerr + 'f json list" where
  "scan_all_choices rt response_data =
     ebind (py_contains ''choices'' response_data) (\<lambda>has_choices.
       if has_choices
       then ebind (py_getitem response_data ''choices'') (\<lambda>choices.
            ebind (py_iter choices) (scan_choices rt))
       else Inr [])"

definition scan_context :: "'f runtime \<Rightarrow> 'f json \<Rightarrow> pyerr + 'f json list" where
  "scan_context rt response_data =
     ebind (py_contains ''context'' response_data) (\<lambda>has_context.
     ebind (if has_context then Inr True else py_contains ''retrieved_docs'' response_data) (\<lambda>has_rag.
       if has_rag then emap (parse_source_field rt) (context_data rt response_data) else Inr []))"

text \<open>The body of the \<^verbatim>\<open>try\<close> of \<^verbatim>\<open>_extract_sources\<close>.\<close>

definition scan_locations :: "'f runtime \<Rightarrow> 'f json \<Rightarrow> pyerr + 'f json list" where
  "scan_locations rt response_data =
     ebind (scan_openwebui rt response_data) (\<lambda>s1.
     ebind (scan_fields rt source_fields response_data) (\<lambda>s2.
     ebind (scan_all_choices rt response_data) (\<lambda>s3.
     ebind (scan_context rt response_data) (\<lambda>s4.
       Inr (deduplicate_sources rt (s1 @ s2 @ s3 @ s4))))))"

text \<open>
  \<^verbatim>\<open>_extract_sources\<close>. The handler logs \<^verbatim>\<open>list(response_data.keys())\<close> before it
  returns the empty list, and \<^verbatim>\<open>keys\<close> exists on a dict only: on any other value the
  handler itself raises \<^verbatim>\<open>AttributeError\<close>, which leaves the function.
\<close>

definition extract_sources :: "'f runtime \<Rightarrow> 'f json \<Rightarrow> pyerr + 'f json list" where
  "extract_sources rt response_data =
     (case scan_locations rt response_data of
        Inr unique_sources \<Rightarrow> Inr unique_sources
      | Inl e \<Rightarrow> (case response_data of JDict kvs \<Rightarrow> Inr [] | _ \<Rightarrow> Inl AttributeError))"

section \<open>The content extractor\<close>

record 'f extracted =
  content :: string
  sources :: "'f json list"
  raw_response :: "'f json"

text \<open>The branch chain of \<^verbatim>\<open>_extract_response\<close> that selects \<^verbatim>\<open>content\<close>; the empty
  string where no branch assigns it.\<close>

definition choice_content :: "'f json \<Rightarrow> pyerr + string" where
  "choice_content choice =
     ebind (py_contains ''message'' choice) (\<lambda>has_message.
     ebind (if has_message then ebind (py_getitem choice ''message'') (py_contains ''content'')
            else Inr False) (\<lambda>has_content.
       if has_content
       then ebind (py_getitem choice ''message'') (\<lambda>message.
            ebind (py_getitem message ''content'') py_strip)
       else ebind (py_contains ''text'' choice) (\<lambda>has_text.
              if has_text then ebind (py_getitem choice ''text'') py_strip else Inr '''')))"

definition message_content :: "'f json \<Rightarrow> pyerr + string" where
  "message_content message =
     (case message of
        JStr s \<Rightarrow> Inr (strip s)
      | JDict m \<Rightarrow>
          (if map_of m ''content'' \<noteq> None then ebind (py_getitem message ''content'') py_strip
           else Inr '''')
      | _ \<Rightarrow> Inr '''')"

definition select_content :: "'f runtime \<Rightarrow> 'f json \<Rightarrow> pyerr + string" where
  "select_content rt response_data =
     ebind (py_contains ''choices'' response_data) (\<lambda>has_choices.
     ebind (if has_choices then emap (truthy rt) (py_getitem response_data ''choices'')
            else Inr False) (\<lambda>nonempty_choices.
       if nonempty_choices
       then ebind (py_getitem response_data ''choices'') (\<lambda>choices.
            ebind (py_first choices) choice_content)
       else ebind (py_contains ''response'' response_data) (\<lambda>has_response.
         if has_response then ebind (py_getitem response_data ''response'') py_strip
         else ebind (py_contains ''content'' response_data) (\<lambda>has_content.
           if has_content then ebind (py_getitem response_data ''content'') py_strip
           else ebind (py_contains ''message'' response_data) (\<lambda>has_message.
             if has_message then ebind (py_getitem response_data ''message'') message_content
             else Inr '''')))))"

definition error_content :: string where
  "error_content = ''[ERROR: Failed to parse API response]''"

text \<open>The body of the \<^verbatim>\<open>try\<close> of \<^verbatim>\<open>_extract_response\<close>.\<close>

definition extract_response_body :: "'f runtime \<Rightarrow> 'f json \<Rightarrow> pyerr + 'f extracted" where
  "extract_response_body rt response_data =
     ebind (select_content rt response_data) (\<lambda>selected.
     ebind (extract_sources rt response_data) (\<lambda>found.
       Inr \<lparr>content = (if selected = [] then strip (py_str rt response_data) else selected),
            sources = found,
            raw_response = response_data\<rparr>))"

text \<open>\<^verbatim>\<open>_extract_response\<close>: \<open>Inr\<close> is the dict it returns, \<open>Inl\<close> an exception that leaves
  it. The handler formats the exception for the log and builds a dict of constants.\<close>

definition extract_response :: "'f runtime \<Rightarrow> 'f json \<Rightarrow> pyerr + 'f extracted" where
  "extract_response rt response_data =
     (case extract_response_body rt response_data of
        Inr result \<Rightarrow> Inr result
      | Inl e \<Rightarrow> Inr \<lparr>content = error_content, sources = [], raw_response = response_data\<rparr>)"

section \<open>The deduplicator as the specification words it\<close>

text \<open>
  The key of a record: the components for \<^verbatim>\<open>url\<close>, \<^verbatim>\<open>title\<close>, \<^verbatim>\<open>collection_id\<close> and
  \<^verbatim>\<open>page\<close>, in that order, each only if the field is non-empty (truthy), joined by a
  separator; the hash of the printed record if there is no component. A record survives
  if no earlier record has its key.
\<close>

definition key_fields :: "(string \<times> string) list" where
  "key_fields =
     [(''url:'', ''url''), (''title:'', ''title''), (''collection:'', ''collection_id''),
      (''page:'', ''page'')]"

definition spec_key :: "'f runtime \<Rightarrow> (string \<times> 'f json) list \<Rightarrow> string" where
  "spec_key rt record =
     (let components = map (\<lambda>lf. fst lf @ py_str rt (dict_get record (snd lf) JNull))
                         (filter (\<lambda>lf. truthy rt (dict_get record (snd lf) JNull)) key_fields)
      in if components = [] then str_int (str_hash rt (py_str rt (JDict record)))
         else join ''|'' components)"

definition first_seen :: "('a \<Rightarrow> string) \<Rightarrow> 'a list \<Rightarrow> 'a list" where
  "first_seen key xs =
     map (\<lambda>i. xs ! i) (filter (\<lambda>i. key (xs ! i) \<notin> key ` set (take i xs)) [0..<length xs])"

section \<open>A runtime for worked examples\<close>

text \<open>
  Floats are exact rationals here, a string hashes to its length, and \<^verbatim>\<open>json.loads\<close>
  rejects every string. The theorems below hold for every runtime; this one evaluates
  them on concrete documents.
\<close>

definition example_runtime :: "rat runtime" where
  "example_runtime =
     \<lparr>float_is_zero = (\<lambda>d. d = 0), float_rsub1 = (\<lambda>d. 1 - d), float_repr = (\<lambda>d. ''<float>''),
      str_hash = (\<lambda>s. int (length s)), json_loads = (\<lambda>s. None)\<rparr>"

section \<open>Properties of the deduplicator\<close>

lemma nat_digits_nonempty: "nat_digits n \<noteq> []"
  by (subst nat_digits.simps) simp

lemma str_int_nonempty: "str_int i \<noteq> []"
  by (simp add: str_int_def nat_digits_nonempty)

lemma join_nonempty: "parts \<noteq> [] \<Longrightarrow> hd parts \<noteq> [] \<Longrightarrow> join sep parts \<noteq> []"
  by (induction sep parts rule: join.induct) auto

lemma source_key_dict: "source_key rt (JDict record) = Inr (spec_key rt record)"
  by (simp add: source_key_def key_parts_def key_part_def ebind_def emap_def spec_key_def
      key_fields_def dict_get_def Let_def)

lemma spec_key_nonempty: "spec_key rt record \<noteq> []"
  unfolding spec_key_def Let_def
  by (auto simp: str_int_nonempty key_fields_def intro!: join_nonempty)

lemma dedup_loop_first_seen:
  "dedup_loop rt S (map JDict rs) =
     map JDict (map (\<lambda>i. rs ! i)
       (filter (\<lambda>i. spec_key rt (rs ! i) \<notin> S \<union> spec_key rt ` set (take i rs)) [0..<length rs]))"
proof (induction rs arbitrary: S)
  case Nil
  show ?case by simp
next
  case (Cons r rs)
  let ?k = "spec_key rt r"
  let ?later = "\<lambda>i. spec_key rt (rs ! i) \<notin> S \<union> spec_key rt ` set (take (Suc i) (r # rs))"
  have upt: "[0..<length (r # rs)] = 0 # map Suc [0..<length rs]"
    by (simp add: upt_conv_Cons map_Suc_upt del: upt_Suc)
  have shift: "filter (\<lambda>i. spec_key rt ((r # rs) ! i) \<notin> S \<union> spec_key rt ` set (take i (r # rs)))
                 (map Suc [0..<length rs]) = map Suc (filter ?later [0..<length rs])"
    by (simp add: filter_map o_def conj_ac)
  have tail: "map (\<lambda>i. (r # rs) ! i) (map Suc is) = map (\<lambda>i. rs ! i) is" for "is"
    by simp
  show ?case
  proof (cases "?k \<in> S")
    case True
    have same: "(\<lambda>i. spec_key rt (rs ! i) \<notin> S \<union> spec_key rt ` set (take i rs)) = ?later"
      using True by auto
    have "dedup_loop rt S (map JDict (r # rs)) = dedup_loop rt S (map JDict rs)"
      using True by (simp add: source_key_dict)
    also have "\<dots> = map JDict (map (\<lambda>i. rs ! i) (filter ?later [0..<length rs]))"
      unfolding Cons.IH same ..
    also have "\<dots> = map JDict (map (\<lambda>i. (r # rs) ! i)
        (filter (\<lambda>i. spec_key rt ((r # rs) ! i) \<notin> S \<union> spec_key rt ` set (take i (r # rs)))
           [0..<length (r # rs)]))"
      unfolding upt using True by (simp only: filter.simps shift tail nth_Cons_0 take_0 list.set image_empty Un_empty_right if_False simp_thms)
    finally show ?thesis .
  next
    case False
    have same: "(\<lambda>i. spec_key rt (rs ! i) \<notin> insert ?k S \<union> spec_key rt ` set (take i rs)) = ?later"
      by auto
    have "dedup_loop rt S (map JDict (r # rs)) = JDict r # dedup_loop rt (insert ?k S) (map JDict rs)"
      using False by (simp add: source_key_dict spec_key_nonempty)
    also have "\<dots> = JDict r # map JDict (map (\<lambda>i. rs ! i) (filter ?later [0..<length rs]))"
      unfolding Cons.IH same ..
    also have "\<dots> = map JDict (map (\<lambda>i. (r # rs) ! i)
        (filter (\<lambda>i. spec_key rt ((r # rs) ! i) \<notin> S \<union> spec_key rt ` set (take i (r # rs)))
           [0..<length (r # rs)]))"
      unfolding upt using False by (simp only: filter.simps shift tail nth_Cons_0 take_0 list.set image_empty Un_empty_right if_True simp_thms list.map)
    finally show ?thesis .
  qed
qed

lemma dedup_loop_idem: "dedup_loop rt S (dedup_loop rt S xs) = dedup_loop rt S xs"
  by (induction xs arbitrary: S) (auto split: sum.splits)

text \<open>
  Claim C3. On a list of records (dicts), the key the code computes is the key of the
  specification: the components for \<^verbatim>\<open>url\<close>, \<^verbatim>\<open>title\<close>, \<^verbatim>\<open>collection_id\<close>, \<^verbatim>\<open>page\<close> in
  that order, only the non-empty ones (non-empty is Python truthiness), joined by
  \<^verbatim>\<open>|\<close>; when all four are empty the key is the hash of the printed record. The
  deduplicator keeps exactly the records whose key no earlier record has, in input order;
  so for A, B, C with the key of C equal to that of A and the key of B different, the
  result is [A, B].
\<close>

theorem deduplicate_first_seen:
  "source_key rt (JDict record) = Inr (spec_key rt record)
   \<and> (\<not> truthy rt (dict_get record ''url'' JNull) \<and> \<not> truthy rt (dict_get record ''title'' JNull)
        \<and> \<not> truthy rt (dict_get record ''collection_id'' JNull)
        \<and> \<not> truthy rt (dict_get record ''page'' JNull)
        \<longrightarrow> source_key rt (JDict record) = Inr (str_int (str_hash rt (py_str rt (JDict record)))))
   \<and> deduplicate_sources rt (map JDict records) = map JDict (first_seen (spec_key rt) records)
   \<and> (spec_key rt c = spec_key rt a \<and> spec_key rt b \<noteq> spec_key rt a
        \<longrightarrow> deduplicate_sources rt [JDict a, JDict b, JDict c] = [JDict a, JDict b])"
proof (intro conjI impI)
  show "source_key rt (JDict record) = Inr (spec_key rt record)"
    by (rule source_key_dict)
next
  assume "\<not> truthy rt (dict_get record ''url'' JNull) \<and> \<not> truthy rt (dict_get record ''title'' JNull)
        \<and> \<not> truthy rt (dict_get record ''collection_id'' JNull)
        \<and> \<not> truthy rt (dict_get record ''page'' JNull)"
  then show "source_key rt (JDict record) = Inr (str_int (str_hash rt (py_str rt (JDict record))))"
    by (simp add: source_key_dict spec_key_def key_fields_def)
next
  show "deduplicate_sources rt (map JDict records) = map JDict (first_seen (spec_key rt) records)"
    by (simp add: deduplicate_sources_def dedup_loop_first_seen first_seen_def)
next
  assume "spec_key rt c = spec_key rt a \<and> spec_key rt b \<noteq> spec_key rt a"
  then show "deduplicate_sources rt [JDict a, JDict b, JDict c] = [JDict a, JDict b]"
    by (simp add: deduplicate_sources_def source_key_dict spec_key_nonempty)
qed

theorem deduplicate_first_seen_witness:
  "deduplicate_sources example_runtime
     [JDict [(''url'', JStr ''x''), (''title'', JStr ''''), (''snippet'', JStr ''a''), (''score'', JInt 0)],
      JDict [(''url'', JStr ''y''), (''title'', JStr ''''), (''snippet'', JStr ''b''), (''score'', JInt 0)],
      JDict [(''url'', JStr ''x''), (''title'', JStr ''''), (''snippet'', JStr ''c''), (''score'', JInt 0)]]
   = [JDict [(''url'', JStr ''x''), (''title'', JStr ''''), (''snippet'', JStr ''a''), (''score'', JInt 0)],
      JDict [(''url'', JStr ''y''), (''title'', JStr ''''), (''snippet'', JStr ''b''), (''score'', JInt 0)]]
   \<and> source_key example_runtime
        (JDict [(''title'', JStr ''T''), (''url'', JStr ''u''), (''page'', JStr ''Page 2''),
                (''collection_id'', JStr ''c1'')])
      = Inr ''url:u|title:T|collection:c1|page:Page 2''
   \<and> source_key example_runtime (JDict [(''url'', JStr ''''), (''title'', JStr '''')])
      = Inr (str_int (str_hash example_runtime
               (py_str example_runtime (JDict [(''url'', JStr ''''), (''title'', JStr '''')]))))"
  using deduplicate_first_seen [of example_runtime
      "[(''title'', JStr ''T''), (''url'', JStr ''u''), (''page'', JStr ''Page 2''), (''collection_id'', JStr ''c1'')]"
      "[]"
      "[(''url'', JStr ''x''), (''title'', JStr ''''), (''snippet'', JStr ''c''), (''score'', JInt 0)]"
      "[(''url'', JStr ''x''), (''title'', JStr ''''), (''snippet'', JStr ''a''), (''score'', JInt 0)]"
      "[(''url'', JStr ''y''), (''title'', JStr ''''), (''snippet'', JStr ''b''), (''score'', JInt 0)]"]
    deduplicate_first_seen [of example_runtime "[(''url'', JStr ''''), (''title'', JStr '''')]" "[]" "[]" "[]" "[]"]
  by (simp add: spec_key_def key_fields_def dict_get_def)

text \<open>
  Claim C4. Deduplication is idempotent: applied to its own output it returns that output.
  This holds for every list, also one with elements that are not dicts (which the loop
  always keeps).
\<close>

theorem deduplicate_sources_idempotent:
  "deduplicate_sources rt (deduplicate_sources rt srcs) = deduplicate_sources rt srcs"
  by (simp add: deduplicate_sources_def dedup_loop_idem)

theorem deduplicate_sources_idempotent_witness:
  "deduplicate_sources example_runtime
     (deduplicate_sources example_runtime [url_only ''x'', url_only ''y'', JInt 3, url_only ''x'', JInt 3])
   = [url_only ''x'', url_only ''y'', JInt 3, JInt 3]"
  using deduplicate_sources_idempotent [of example_runtime "[url_only ''x'', url_only ''y'', JInt 3, url_only ''x'', JInt 3]"]
  by (simp add: deduplicate_sources_def source_key_def key_parts_def key_part_def ebind_def emap_def url_only_def)

section \<open>Properties of the content extractor\<close>

lemma extract_sources_dict: "\<exists>found. extract_sources rt (JDict kvs) = Inr found"
  by (simp add: extract_sources_def split: sum.splits)

lemma not_space_braces: "\<not> is_space (CHR ''{'')" "\<not> is_space (CHR ''}'')"
  by (simp_all add: is_space_def)

lemma strip_braced: "strip (CHR ''{'' # s @ ''}'') = CHR ''{'' # s @ ''}''"
  by (simp add: strip_def not_space_braces)

lemma strip_str_dict_nonempty: "strip (py_str rt (JDict kvs)) \<noteq> []"
  using strip_braced [of "join '', '' (map (\<lambda>kv. repr_str (fst kv) @ '': '' @ py_repr rt (snd kv)) kvs)"]
  by simp

text \<open>
  Claim C1. For every JSON value, \<^verbatim>\<open>_extract_response\<close> returns a result and raises
  nothing, also when \<^verbatim>\<open>_extract_sources\<close> raised from inside its own handler. The raw
  document is attached to the result, and whenever the body of the \<^verbatim>\<open>try\<close> raised, the
  content is the fixed error string and the source list is empty.
\<close>

theorem extract_response_never_raises:
  "\<exists>r. extract_response rt response_data = Inr r \<and> raw_response r = response_data
        \<and> ((\<exists>e. extract_response_body rt response_data = Inl e)
             \<longrightarrow> content r = error_content \<and> sources r = [])"
proof (cases "extract_response_body rt response_data")
  case (Inl e)
  then show ?thesis by (simp add: extract_response_def)
next
  case (Inr r)
  then have "raw_response r = response_data"
    by (auto simp: extract_response_body_def ebind_def split: sum.splits)
  with Inr show ?thesis by (simp add: extract_response_def)
qed

theorem extract_response_never_raises_witness:
  "extract_sources example_runtime (JList [JStr ''sources'']) = Inl AttributeError
   \<and> extract_response_body example_runtime (JList [JStr ''sources'']) = Inl AttributeError
   \<and> extract_response example_runtime (JList [JStr ''sources''])
       = Inr \<lparr>content = ''[ERROR: Failed to parse API response]'', sources = [],
              raw_response = JList [JStr ''sources'']\<rparr>"
proof -
  have src: "extract_sources example_runtime (JList [JStr ''sources'']) = Inl AttributeError"
    by (simp add: extract_sources_def scan_locations_def scan_openwebui_def ebind_def emap_def)
  have body: "extract_response_body example_runtime (JList [JStr ''sources'']) = Inl AttributeError"
    by (simp add: extract_response_body_def select_content_def src ebind_def emap_def startswith_def)
  show ?thesis
    using extract_response_never_raises [of example_runtime "JList [JStr ''sources'']"] src body
    by (auto simp: error_content_def)
qed

text \<open>
  Claim C10. For an object document on which the branch chain selects the empty string
  (a recognized shape whose content is empty or whitespace-only, such as
  \<^verbatim>\<open>{"response": "  "}\<close>, or no recognized shape at all), the content returned is the
  trimmed \<^verbatim>\<open>str\<close> of the raw document, which is not empty.
\<close>

theorem empty_content_falls_back:
  assumes "select_content rt (JDict doc) = Inr []"
  shows "\<exists>r. extract_response rt (JDict doc) = Inr r
             \<and> content r = strip (py_str rt (JDict doc)) \<and> content r \<noteq> []"
proof -
  obtain found where "extract_sources rt (JDict doc) = Inr found"
    using extract_sources_dict by blast
  with assms have "extract_response rt (JDict doc)
      = Inr \<lparr>content = strip (py_str rt (JDict doc)), sources = found, raw_response = JDict doc\<rparr>"
    by (simp add: extract_response_def extract_response_body_def ebind_def)
  then show ?thesis
    using strip_str_dict_nonempty [of rt doc] by simp
qed

theorem empty_content_falls_back_witness:
  "select_content example_runtime (JDict [(''response'', JStr ''  '')]) = Inr []
   \<and> (\<exists>r. extract_response example_runtime (JDict [(''response'', JStr ''  '')]) = Inr r
           \<and> content r = [CHR ''{'', CHR 0x27, CHR ''r'', CHR ''e'', CHR ''s'', CHR ''p'',
         CHR ''o'', CHR ''n'', CHR ''s'', CHR ''e'', CHR 0x27, CHR '':'',
         CHR '' '', CHR 0x27, CHR '' '', CHR '' '', CHR 0x27, CHR ''}''])"
proof -
  have sel: "select_content example_runtime (JDict [(''response'', JStr ''  '')]) = Inr []"
    by (simp add: select_content_def ebind_def emap_def strip_def is_space_def)
  have str: "strip (py_str example_runtime (JDict [(''response'', JStr ''  '')]))
      = [CHR ''{'', CHR 0x27, CHR ''r'', CHR ''e'', CHR ''s'', CHR ''p'',
         CHR ''o'', CHR ''n'', CHR ''s'', CHR ''e'', CHR 0x27, CHR '':'',
         CHR '' '', CHR 0x27, CHR '' '', CHR '' '', CHR 0x27, CHR ''}'']"
    by (simp add: strip_def is_space_def repr_str_def repr_quote_def repr_char_def Let_def)
  show ?thesis
    using empty_content_falls_back [OF sel] sel str by auto
qed





section \<open>Properties of the OpenWebUI parser\<close>

lemma metadata_at_total:
  "metadata_at ml i = Inr (if i < length ml then ml ! i else JDict [])"
  by (simp add: metadata_at_def list_index_def)

lemma distance_at_total:
  "distance_at ds i = Inr (if i < length ds then ds ! i else JInt 0)"
  by (simp add: distance_at_def list_index_def)

lemma score_of_not_index: "score_of rt d \<noteq> Inl IndexError"
  by (cases d) (simp_all add: score_of_def)

lemma parse_document_eq:
  "parse_document rt cid ct ml ds (i, doc_text) =
     (case (if i < length ml then ml ! i else JDict []) of
        JDict md \<Rightarrow>
          (case score_of rt (if i < length ds then ds ! i else JInt 0) of
             Inl e \<Rightarrow> Inl e
           | Inr score \<Rightarrow>
               Inr (if truthy rt (metadata_title rt md) \<or> snippet_of rt doc_text \<noteq> []
                       \<or> truthy rt (metadata_url rt md)
                    then [JDict (document_source rt cid ct md doc_text score)] else []))
      | _ \<Rightarrow> Inl AttributeError)"
  by (simp add: parse_document_def metadata_at_total distance_at_total ebind_def Let_def
        document_source_def dict_get_def split: json.splits sum.splits)

lemma parse_document_not_index:
  "parse_document rt cid ct ml ds idoc \<noteq> Inl IndexError"
proof (cases idoc)
  case (Pair i doc_text)
  define m where "m = (if i < length ml then ml ! i else JDict [])"
  define d where "d = (if i < length ds then ds ! i else JInt 0)"
  have "parse_document rt cid ct ml ds (i, doc_text) \<noteq> Inl IndexError"
    unfolding parse_document_eq m_def [symmetric] d_def [symmetric]
    using score_of_not_index [of rt d]
    by (cases m; cases "score_of rt d") auto
  then show ?thesis by (simp add: Pair)
qed

lemma for_each_error:
  "snd (for_each step xs) = Some e \<Longrightarrow> \<exists>x \<in> set xs. snd (step x) = Some e"
  by (induction xs) (auto split: prod.splits option.splits)

lemma info_get_not_index: "info_get rt v k \<noteq> Inl IndexError"
  by (cases v) (simp_all add: info_get_def)

lemma parse_group_not_index: "snd (parse_group rt g) \<noteq> Some IndexError"
proof
  assume a: "snd (parse_group rt g) = Some IndexError"
  show False
  proof (cases g)
    case (JDict item)
    let ?src = "dict_get item ''source'' (JDict [])"
    obtain cid where cid: "info_get rt ?src ''id'' = Inr cid \<or> (\<exists>e. info_get rt ?src ''id'' = Inl e \<and> e \<noteq> IndexError)"
      using info_get_not_index [of rt ?src "''id''"] by (cases "info_get rt ?src ''id''") auto
    obtain ct where ct: "info_get rt ?src ''type'' = Inr ct \<or> (\<exists>e. info_get rt ?src ''type'' = Inl e \<and> e \<noteq> IndexError)"
      using info_get_not_index [of rt ?src "''type''"] by (cases "info_get rt ?src ''type''") auto
    from a JDict cid ct show False
      by (auto simp: parse_group_def emit_def parse_document_not_index
               dest!: for_each_error split: sum.splits)
  qed (use a in \<open>simp_all add: parse_group_def\<close>)
qed

text \<open>
  Claim C5. Pairing document \<open>i\<close> with its metadata and distance never raises
  \<^verbatim>\<open>IndexError\<close>, whatever the lengths of the three lists: beyond the metadata list the
  metadata is the empty dict, beyond the distances list the distance is 0, and inside
  them they are the entries at \<open>i\<close>. Neither the record of one document nor a whole source
  group ends in \<^verbatim>\<open>IndexError\<close>.
\<close>

theorem ragged_pairing_in_bounds:
  "(\<exists>m d. metadata_at metadata_list i = Inr m \<and> distance_at distances i = Inr d
        \<and> (length metadata_list \<le> i \<longrightarrow> m = JDict [])
        \<and> (length distances \<le> i \<longrightarrow> d = JInt 0)
        \<and> (i < length metadata_list \<longrightarrow> m = metadata_list ! i)
        \<and> (i < length distances \<longrightarrow> d = distances ! i))
   \<and> parse_document rt cid ct metadata_list distances (i, doc_text) \<noteq> Inl IndexError
   \<and> snd (parse_group rt source_item) \<noteq> Some IndexError"
  by (simp add: metadata_at_total distance_at_total parse_document_not_index parse_group_not_index)

theorem ragged_pairing_in_bounds_witness:
  "metadata_at [JDict [(''title'', JStr ''T'')], JDict []] 2 = Inr (JDict [] :: rat json)
   \<and> distance_at [JFloat (1 / 5 :: rat)] 1 = Inr (JInt 0)
   \<and> distance_at [JFloat (1 / 5 :: rat)] 0 = Inr (JFloat (1 / 5))
   \<and> parse_document example_runtime (JStr '''') (JStr '''')
        [JDict [(''title'', JStr ''T'')], JDict []] [JFloat (1 / 5)] (2, JStr ''d3'')
      = Inr [JDict [(''title'', JStr ''''), (''url'', JStr ''''), (''snippet'', JStr ''d3''),
                    (''score'', JInt 0), (''author'', JStr ''''), (''page'', JStr ''''),
                    (''collection_id'', JStr ''''), (''collection_type'', JStr ''''),
                    (''metadata'', JDict [])]]
   \<and> length (parse_openwebui_sources example_runtime
        (JList [JDict [(''document'', JList [JStr ''d1'', JStr ''d2'', JStr ''d3'']),
                       (''metadata'', JList [JDict [(''title'', JStr ''T'')], JDict []]),
                       (''distances'', JList [JFloat (1 / 5)])]])) = 3"
proof -
  have doc: "parse_document example_runtime (JStr '''') (JStr '''')
        [JDict [(''title'', JStr ''T'')], JDict []] [JFloat (1 / 5)] (2, JStr ''d3'')
      = Inr [JDict [(''title'', JStr ''''), (''url'', JStr ''''), (''snippet'', JStr ''d3''),
                    (''score'', JInt 0), (''author'', JStr ''''), (''page'', JStr ''''),
                    (''collection_id'', JStr ''''), (''collection_type'', JStr ''''),
                    (''metadata'', JDict [])]]"
    by (simp add: parse_document_eq score_of_def metadata_title_def metadata_url_def
          metadata_author_def page_info_def document_source_def snippet_of_def py_or_def dict_get_def)
  have all: "length (parse_openwebui_sources example_runtime
        (JList [JDict [(''document'', JList [JStr ''d1'', JStr ''d2'', JStr ''d3'']),
                       (''metadata'', JList [JDict [(''title'', JStr ''T'')], JDict []]),
                       (''distances'', JList [JFloat (1 / 5)])]])) = 3"
    by (simp add: parse_openwebui_sources_def parse_group_def info_get_def as_list_def
          enumerate_eq_zip upt_rec emit_def parse_document_eq score_of_def example_runtime_def
          metadata_title_def metadata_url_def snippet_of_def py_or_def dict_get_def)
  show ?thesis
    using ragged_pairing_in_bounds [of "[JDict [(''title'', JStr ''T'')], JDict []]" 2
        "[JFloat (1 / 5 :: rat)]" example_runtime "JStr ''''" "JStr ''''" "JStr ''d3''" JNull]
      ragged_pairing_in_bounds [of "[]" 1 "[JFloat (1 / 5 :: rat)]" example_runtime JNull JNull JNull JNull]
      ragged_pairing_in_bounds [of "[]" 0 "[JFloat (1 / 5 :: rat)]" example_runtime JNull JNull JNull JNull]
      doc all
    by auto
qed

text \<open>The score of a numeric distance: \<open>1 - d\<close> unless the distance is zero.\<close>

lemma score_of_cases:
  "score_of rt (JInt n) = Inr (JInt (if n = 0 then 0 else 1 - n))"
  "score_of rt (JFloat d) = Inr (if float_is_zero rt d then JInt 0 else JFloat (float_rsub1 rt d))"
  by (simp_all add: score_of_def)

text \<open>
  Claim C6 says that a document paired with a present distance \<open>d\<close> gets the score
  \<open>1 - d\<close>. The source tests the distance for truthiness, so a distance that is present and
  equal to zero gets the score 0, not 1: for the group
  \<^verbatim>\<open>{"document": ["doc text"], "distances": [0]}\<close> the record's score is 0.
\<close>

theorem zero_distance_scores_zero:
  "score_of rt (JInt 0) = Inr (JInt 0)
   \<and> parse_openwebui_sources rt
        (JList [JDict [(''document'', JList [JStr ''doc text'']), (''distances'', JList [JInt 0])]])
     = [JDict [(''title'', JStr ''''), (''url'', JStr ''''), (''snippet'', JStr ''doc text''),
               (''score'', JInt 0), (''author'', JStr ''''), (''page'', JStr ''''),
               (''collection_id'', JStr ''''), (''collection_type'', JStr ''''),
               (''metadata'', JDict [])]]"
  by (simp add: parse_openwebui_sources_def parse_group_def info_get_def as_list_def
        enumerate_eq_zip emit_def parse_document_eq score_of_def
        metadata_title_def metadata_url_def metadata_author_def page_info_def
        document_source_def snippet_of_def py_or_def dict_get_def)

section \<open>Properties of the source location scanner\<close>

lemma scan_openwebui_dict:
  "scan_openwebui rt (JDict doc) =
     Inr (case map_of doc ''sources'' of None \<Rightarrow> [] | Some v \<Rightarrow> parse_openwebui_sources rt v)"
  by (auto simp: scan_openwebui_def ebind_def emap_def split: option.splits)

lemma scan_fields_dict:
  "scan_fields rt fs (JDict doc) =
     Inr (concat (map (\<lambda>field. case map_of doc field of None \<Rightarrow> []
                               | Some v \<Rightarrow> parse_source_field rt v) fs))"
  by (induction fs) (auto simp: emap_def split: option.splits)

lemma context_data_dict:
  "context_data rt (JDict doc) =
     Inr (py_or rt (dict_get doc ''context'' JNull) (dict_get doc ''retrieved_docs'' JNull))"
  by (simp add: context_data_def ebind_def py_or_def dict_get_def)

lemma scan_context_dict:
  "scan_context rt (JDict doc) =
     Inr (if map_of doc ''context'' \<noteq> None \<or> map_of doc ''retrieved_docs'' \<noteq> None
          then parse_source_field rt
                 (py_or rt (dict_get doc ''context'' JNull) (dict_get doc ''retrieved_docs'' JNull))
          else [])"
  by (simp add: scan_context_def context_data_dict ebind_def emap_def)

lemma extract_sources_of_dict:
  "extract_sources rt (JDict doc) =
     (case scan_all_choices rt (JDict doc) of
        Inl e \<Rightarrow> Inr []
      | Inr from_choices \<Rightarrow>
          Inr (deduplicate_sources rt
            ((case map_of doc ''sources'' of None \<Rightarrow> [] | Some v \<Rightarrow> parse_openwebui_sources rt v)
             @ concat (map (\<lambda>field. case map_of doc field of None \<Rightarrow> []
                                      | Some v \<Rightarrow> parse_source_field rt v) source_fields)
             @ from_choices
             @ (if map_of doc ''context'' \<noteq> None \<or> map_of doc ''retrieved_docs'' \<noteq> None
                then parse_source_field rt
                       (py_or rt (dict_get doc ''context'' JNull) (dict_get doc ''retrieved_docs'' JNull))
                else []))))"
proof (cases "scan_all_choices rt (JDict doc)")
  case (Inl e)
  then show ?thesis
    by (simp add: extract_sources_def scan_locations_def scan_openwebui_dict scan_fields_dict
          ebind_def)
next
  case (Inr from_choices)
  then show ?thesis
    unfolding extract_sources_def scan_locations_def scan_openwebui_dict scan_fields_dict
      scan_context_dict ebind_def
    by (simp only: sum.case)
qed

text \<open>What a loop that stops at an exception has appended, and what the parsers return
  when a group, a document or a call fails.\<close>

lemma for_each_clean_prefix:
  "\<forall>x \<in> set good. snd (step x) = None \<Longrightarrow>
   for_each step (good @ rest) =
     (concat (map (\<lambda>x. fst (step x)) good) @ fst (for_each step rest), snd (for_each step rest))"
  by (induction good) (auto split: prod.splits option.splits)


lemma for_each_head: "\<exists>more. fst (for_each step (x # rest)) = fst (step x) @ more"
  by (cases "step x") (auto split: prod.splits option.splits)

lemma for_each_member:
  "r \<in> set (fst (for_each step xs)) \<Longrightarrow> \<exists>x \<in> set xs. r \<in> set (fst (step x))"
  by (induction xs) (auto split: prod.splits option.splits)


lemma parse_group_dict:
  assumes "info_get rt (dict_get item ''source'' (JDict [])) ''id'' = Inr cid"
    and "info_get rt (dict_get item ''source'' (JDict [])) ''type'' = Inr ct"
  shows "parse_group rt (JDict item) =
           for_each (\<lambda>idoc. emit (parse_document rt cid ct
                       (as_list rt (dict_get item ''metadata'' (JList [])))
                       (as_list rt (dict_get item ''distances'' (JList []))) idoc))
             (enumerate 0 (as_list rt (dict_get item ''document'' (JList []))))"
  using assms by (simp add: parse_group_def)










text \<open>
  Claim C9 says that \<^verbatim>\<open>retrieved_docs\<close> is consulted only when \<^verbatim>\<open>context\<close> is not
  present. With \<^verbatim>\<open>context\<close> present and empty, the value handed to the generic parser is
  that of \<^verbatim>\<open>retrieved_docs\<close>.
\<close>

theorem context_falsy_counterexample:
  "context_data example_runtime
     (JDict [(''context'', JList []), (''retrieved_docs'', JList [JStr ''http://a''])])
     = Inr (JList [JStr ''http://a''])
   \<and> extract_sources example_runtime
     (JDict [(''context'', JList []), (''retrieved_docs'', JList [JStr ''http://a''])])
     = Inr [url_only ''http://a'']"
proof -
  have d: "deduplicate_sources example_runtime [url_only ''http://a''] = [url_only ''http://a'']"
    by (simp add: deduplicate_sources_def url_only_def source_key_dict spec_key_nonempty)
  have c: "scan_all_choices example_runtime
     (JDict [(''context'', JList []), (''retrieved_docs'', JList [JStr ''http://a''])]) = Inr []"
    by (simp add: scan_all_choices_def ebind_def)
  show ?thesis
    by (simp add: context_data_dict extract_sources_of_dict c d source_fields_def parse_source_field_def
          py_or_def dict_get_def)
qed

text \<open>
  Claim C9, amended. When both fields are present, the generic parser receives
  \<^verbatim>\<open>context\<close> if it is truthy and \<^verbatim>\<open>retrieved_docs\<close> otherwise; when only one of the two
  is present, the scanner yields what the generic parser makes of that one.
\<close>

theorem context_first_truthy:
  "(map_of doc ''context'' = Some c \<and> map_of doc ''retrieved_docs'' = Some r
      \<longrightarrow> context_data rt (JDict doc) = Inr (if truthy rt c then c else r)
          \<and> scan_context rt (JDict doc) = Inr (parse_source_field rt (if truthy rt c then c else r)))
   \<and> (map_of doc ''context'' = None \<and> map_of doc ''retrieved_docs'' = Some r
      \<longrightarrow> scan_context rt (JDict doc) = Inr (parse_source_field rt r))
   \<and> (map_of doc ''context'' = Some c \<and> map_of doc ''retrieved_docs'' = None
      \<longrightarrow> scan_context rt (JDict doc) = Inr (parse_source_field rt c))"
  by (auto simp: context_data_dict scan_context_dict py_or_def dict_get_def parse_source_field_def)

theorem context_first_truthy_witness:
  "scan_context example_runtime
     (JDict [(''context'', JList [JStr ''http://c'']), (''retrieved_docs'', JList [JStr ''http://a''])])
     = Inr [url_only ''http://c'']
   \<and> scan_context example_runtime
     (JDict [(''context'', JStr ''''), (''retrieved_docs'', JList [JStr ''http://a''])])
     = Inr [url_only ''http://a'']"
  using context_first_truthy [of "[(''context'', JList [JStr ''http://c'']), (''retrieved_docs'', JList [JStr ''http://a''])]"
      "JList [JStr ''http://c'']" "JList [JStr ''http://a'']" example_runtime]
    context_first_truthy [of "[(''context'', JStr ''''), (''retrieved_docs'', JList [JStr ''http://a''])]"
      "JStr ''''" "JList [JStr ''http://a'']" example_runtime]
  by (simp add: parse_source_field_def)

section \<open>Admission of records\<close>

lemma parse_list_items_dicts:
  "concat (map (parse_list_item rt) (map JDict items)) =
     map (\<lambda>item. JDict (source_of_object rt item))
       (filter (\<lambda>item. truthy rt (dict_get (source_of_object rt item) ''url'' JNull)
                      \<or> truthy rt (dict_get (source_of_object rt item) ''title'' JNull)) items)"
  by (induction items) (simp_all add: object_sources_def Let_def)

lemma source_of_object_empty:
  "dict_get (source_of_object rt []) ''url'' JNull = JStr ''''"
  "dict_get (source_of_object rt []) ''title'' JNull = JStr ''''"
  by (simp_all add: source_of_object_def dict_get_def py_or_def)

lemma document_source_fields:
  "dict_get (document_source rt cid ct md doc_text score) ''title'' JNull = metadata_title rt md"
  "dict_get (document_source rt cid ct md doc_text score) ''snippet'' JNull = JStr (snippet_of rt doc_text)"
  "dict_get (document_source rt cid ct md doc_text score) ''url'' JNull = metadata_url rt md"
  by (simp_all add: document_source_def dict_get_def)

lemma parse_document_built:
  assumes "metadata_at ml i = Inr (JDict metadata)"
    and "distance_at ds i = Inr distance"
    and "score_of rt distance = Inr score"
  shows "parse_document rt cid ct ml ds (i, doc_text) =
           Inr (if truthy rt (metadata_title rt metadata) \<or> snippet_of rt doc_text \<noteq> []
                   \<or> truthy rt (metadata_url rt metadata)
                then [JDict (document_source rt cid ct metadata doc_text score)] else [])"
  using assms by (simp add: parse_document_def ebind_def Let_def document_source_fields)

lemma parse_document_not_built:
  "(\<forall>metadata. metadata_at ml i \<noteq> Inr (JDict metadata))
     \<Longrightarrow> parse_document rt cid ct ml ds (i, doc_text) = Inl AttributeError"
  "metadata_at ml i = Inr (JDict metadata) \<Longrightarrow> distance_at ds i = Inr distance
     \<Longrightarrow> score_of rt distance = Inl e
     \<Longrightarrow> parse_document rt cid ct ml ds (i, doc_text) = Inl e"
proof -
  show "parse_document rt cid ct ml ds (i, doc_text) = Inl AttributeError"
    if "\<forall>metadata. metadata_at ml i \<noteq> Inr (JDict metadata)"
  proof -
    define m where "m = (if i < length ml then ml ! i else JDict [])"
    have "metadata_at ml i = Inr m" by (simp add: metadata_at_total m_def)
    with that have "\<forall>metadata. m \<noteq> JDict metadata" by simp
    then show ?thesis
      unfolding parse_document_eq m_def [symmetric] by (cases m) simp_all
  qed
  show "parse_document rt cid ct ml ds (i, doc_text) = Inl e"
    if "metadata_at ml i = Inr (JDict metadata)" "distance_at ds i = Inr distance"
      "score_of rt distance = Inl e"
    using that by (simp add: parse_document_def ebind_def)
qed

lemma parse_document_records:
  assumes "parse_document rt cid ct ml ds idoc = Inr out" and "r \<in> set out"
  shows "\<exists>kvs. r = JDict kvs
           \<and> (truthy rt (dict_get kvs ''title'' JNull) \<or> truthy rt (dict_get kvs ''snippet'' JNull)
                \<or> truthy rt (dict_get kvs ''url'' JNull))"
proof (cases idoc)
  case (Pair i doc_text)
  define m where "m = (if i < length ml then ml ! i else JDict [])"
  define d where "d = (if i < length ds then ds ! i else JInt 0)"
  from assms(1) obtain md score where "m = JDict md" "score_of rt d = Inr score"
    and out: "out = (if truthy rt (metadata_title rt md) \<or> snippet_of rt doc_text \<noteq> []
                        \<or> truthy rt (metadata_url rt md)
                     then [JDict (document_source rt cid ct md doc_text score)] else [])"
    unfolding Pair parse_document_eq m_def [symmetric] d_def [symmetric]
    by (cases m; cases "score_of rt d") auto
  from out assms(2) show ?thesis
    by (auto simp: document_source_fields split: if_splits)
qed

lemma parse_group_records:
  assumes "r \<in> set (fst (parse_group rt g))"
  shows "\<exists>kvs. r = JDict kvs
           \<and> (truthy rt (dict_get kvs ''title'' JNull) \<or> truthy rt (dict_get kvs ''snippet'' JNull)
                \<or> truthy rt (dict_get kvs ''url'' JNull))"
proof (cases g)
  case (JDict item)
  let ?src = "dict_get item ''source'' (JDict [])"
  show ?thesis
  proof (cases "info_get rt ?src ''id''")
    case (Inl e)
    with assms JDict show ?thesis by (simp add: parse_group_def)
  next
    case id: (Inr cid)
    show ?thesis
    proof (cases "info_get rt ?src ''type''")
      case (Inl e)
      with assms JDict id show ?thesis by (simp add: parse_group_def)
    next
      case ty: (Inr ct)
      from assms obtain idoc where
        "r \<in> set (fst (emit (parse_document rt cid ct
                       (as_list rt (dict_get item ''metadata'' (JList [])))
                       (as_list rt (dict_get item ''distances'' (JList []))) idoc)))"
        unfolding JDict parse_group_dict [OF id ty] by (blast dest: for_each_member)
      then show ?thesis
        by (auto simp: emit_def split: sum.splits dest: parse_document_records)
    qed
  qed
qed (use assms in \<open>simp_all add: parse_group_def\<close>)

lemma openwebui_records:
  assumes "r \<in> set (parse_openwebui_sources rt sources_data)"
  shows "\<exists>kvs. r = JDict kvs
           \<and> (truthy rt (dict_get kvs ''title'' JNull) \<or> truthy rt (dict_get kvs ''snippet'' JNull)
                \<or> truthy rt (dict_get kvs ''url'' JNull))"
proof (cases "py_iter sources_data")
  case (Inl e)
  with assms show ?thesis by (simp add: parse_openwebui_sources_def)
next
  case (Inr items)
  with assms obtain g where "r \<in> set (fst (parse_group rt g))"
    by (auto simp: parse_openwebui_sources_def dest: for_each_member)
  then show ?thesis by (rule parse_group_records)
qed

lemma openwebui_retains:
  assumes groups: "\<forall>g \<in> set good_groups. snd (parse_group rt g) = None"
    and id: "info_get rt (dict_get item ''source'' (JDict [])) ''id'' = Inr cid"
    and ty: "info_get rt (dict_get item ''source'' (JDict [])) ''type'' = Inr ct"
    and docs: "as_list rt (dict_get item ''document'' (JList [])) = good_docs @ doc_text # later_docs"
    and good: "\<forall>j < length good_docs. \<exists>out.
        parse_document rt cid ct (as_list rt (dict_get item ''metadata'' (JList [])))
          (as_list rt (dict_get item ''distances'' (JList []))) (j, good_docs ! j) = Inr out"
    and md: "metadata_at (as_list rt (dict_get item ''metadata'' (JList []))) (length good_docs)
               = Inr (JDict metadata)"
    and dist: "distance_at (as_list rt (dict_get item ''distances'' (JList []))) (length good_docs)
               = Inr distance"
    and score: "score_of rt distance = Inr score"
    and keep: "truthy rt (metadata_title rt metadata) \<or> snippet_of rt doc_text \<noteq> []
                 \<or> truthy rt (metadata_url rt metadata)"
  shows "JDict (document_source rt cid ct metadata doc_text score)
           \<in> set (parse_openwebui_sources rt (JList (good_groups @ JDict item # later_groups)))"
proof -
  let ?ml = "as_list rt (dict_get item ''metadata'' (JList []))"
  let ?ds = "as_list rt (dict_get item ''distances'' (JList []))"
  let ?step = "\<lambda>idoc. emit (parse_document rt cid ct ?ml ?ds idoc)"
  let ?r = "JDict (document_source rt cid ct metadata doc_text score)"
  have here: "fst (?step (length good_docs, doc_text)) = [?r]"
    using parse_document_built [OF md dist score, of cid ct doc_text] keep by (simp add: emit_def)
  have clean: "\<forall>x \<in> set (enumerate 0 good_docs). snd (?step x) = None"
    using good by (auto simp: in_set_enumerate_eq emit_def)
  have split: "enumerate 0 (good_docs @ doc_text # later_docs) =
      enumerate 0 good_docs @ (length good_docs, doc_text) # enumerate (Suc (length good_docs)) later_docs"
    by (simp add: enumerate_append_eq)
  obtain more where "fst (for_each ?step ((length good_docs, doc_text) # enumerate (Suc (length good_docs)) later_docs))
      = fst (?step (length good_docs, doc_text)) @ more"
    using for_each_head [of ?step "(length good_docs, doc_text)" "enumerate (Suc (length good_docs)) later_docs"]
    by auto
  then have "?r \<in> set (fst (parse_group rt (JDict item)))"
    unfolding parse_group_dict [OF id ty] docs split for_each_clean_prefix [OF clean] here
    by simp
  moreover obtain more' where "fst (for_each (parse_group rt) (JDict item # later_groups))
      = fst (parse_group rt (JDict item)) @ more'"
    using for_each_head [of "parse_group rt" "JDict item" later_groups] by auto
  ultimately show ?thesis
    unfolding parse_openwebui_sources_def
    by (simp add: for_each_clean_prefix [OF groups] del: for_each.simps)
qed

text \<open>
  Claim C8. The generic parser keeps the record of an object, alone or as a list
  element, exactly if the record's \<^verbatim>\<open>url\<close> or \<^verbatim>\<open>title\<close> is non-empty (truthy); an object
  with none of \<^verbatim>\<open>title\<close>, \<^verbatim>\<open>url\<close>, \<^verbatim>\<open>link\<close>, \<^verbatim>\<open>source\<close> is dropped, whatever its
  snippet. In the OpenWebUI parser a document's record is built when its metadata entry
  is a dict (or absent) and \<^verbatim>\<open>1 - distance\<close> can be computed (or the distance is falsy
  or absent); for every index, metadata list and distance list, a record that is built is
  kept exactly if its title, its snippet or its url is non-empty, and otherwise the
  document raises and no record exists. Every record the parser returns, on any input,
  has a non-empty title, snippet or url. A record that is built and passes the test is in
  the parser's result whenever the groups before its group and the documents before it
  in its group did not raise, whatever follows. A group with one non-empty document text
  and no metadata yields one record, whose title and url are empty.
\<close>

theorem admission_rules:
  "parse_source_field rt (JList (map JDict items)) =
     map (\<lambda>item. JDict (source_of_object rt item))
       (filter (\<lambda>item. truthy rt (dict_get (source_of_object rt item) ''url'' JNull)
                      \<or> truthy rt (dict_get (source_of_object rt item) ''title'' JNull)) items)
   \<and> parse_source_field rt (JDict item) =
       (if truthy rt (dict_get (source_of_object rt item) ''url'' JNull)
           \<or> truthy rt (dict_get (source_of_object rt item) ''title'' JNull)
        then [JDict (source_of_object rt item)] else [])
   \<and> (map_of item ''title'' = None \<and> map_of item ''url'' = None \<and> map_of item ''link'' = None
        \<and> map_of item ''source'' = None
       \<longrightarrow> parse_source_field rt (JDict item) = [] \<and> parse_source_field rt (JList [JDict item]) = [])
   \<and> (metadata_at metadata_list i = Inr (JDict metadata) \<and> distance_at distances i = Inr distance
        \<and> score_of rt distance = Inr score
       \<longrightarrow> parse_document rt cid ct metadata_list distances (i, doc_text) =
             Inr (if truthy rt (metadata_title rt metadata) \<or> snippet_of rt doc_text \<noteq> []
                     \<or> truthy rt (metadata_url rt metadata)
                  then [JDict (document_source rt cid ct metadata doc_text score)] else []))
   \<and> ((\<forall>md. metadata_at metadata_list i \<noteq> Inr (JDict md))
       \<longrightarrow> parse_document rt cid ct metadata_list distances (i, doc_text) = Inl AttributeError)
   \<and> (metadata_at metadata_list i = Inr (JDict metadata) \<and> distance_at distances i = Inr distance
        \<and> score_of rt distance = Inl e
       \<longrightarrow> parse_document rt cid ct metadata_list distances (i, doc_text) = Inl e)
   \<and> (\<forall>r \<in> set (parse_openwebui_sources rt sources_data).
         \<exists>kvs. r = JDict kvs
           \<and> (truthy rt (dict_get kvs ''title'' JNull) \<or> truthy rt (dict_get kvs ''snippet'' JNull)
                \<or> truthy rt (dict_get kvs ''url'' JNull)))
   \<and> ((\<forall>g \<in> set good_groups. snd (parse_group rt g) = None)
        \<and> info_get rt (dict_get source_group ''source'' (JDict [])) ''id'' = Inr collection_id
        \<and> info_get rt (dict_get source_group ''source'' (JDict [])) ''type'' = Inr collection_type
        \<and> as_list rt (dict_get source_group ''document'' (JList [])) = good_docs @ doc # later_docs
        \<and> (\<forall>j < length good_docs. \<exists>out.
              parse_document rt collection_id collection_type
                (as_list rt (dict_get source_group ''metadata'' (JList [])))
                (as_list rt (dict_get source_group ''distances'' (JList []))) (j, good_docs ! j) = Inr out)
        \<and> metadata_at (as_list rt (dict_get source_group ''metadata'' (JList []))) (length good_docs)
            = Inr (JDict md_here)
        \<and> distance_at (as_list rt (dict_get source_group ''distances'' (JList []))) (length good_docs)
            = Inr distance_here
        \<and> score_of rt distance_here = Inr score_here
        \<and> (truthy rt (metadata_title rt md_here) \<or> snippet_of rt doc \<noteq> []
             \<or> truthy rt (metadata_url rt md_here))
       \<longrightarrow> JDict (document_source rt collection_id collection_type md_here doc score_here)
             \<in> set (parse_openwebui_sources rt (JList (good_groups @ JDict source_group # later_groups))))
   \<and> (snippet_text \<noteq> []
       \<longrightarrow> parse_openwebui_sources rt (JList [JDict [(''document'', JList [JStr snippet_text])]]) =
             [JDict (document_source rt (JStr '''') (JStr '''') [] (JStr snippet_text) (JInt 0))]
           \<and> dict_get (document_source rt (JStr '''') (JStr '''') [] (JStr snippet_text) (JInt 0)) ''title'' JNull = JStr ''''
           \<and> dict_get (document_source rt (JStr '''') (JStr '''') [] (JStr snippet_text) (JInt 0)) ''url'' JNull = JStr '''')"
proof (intro conjI impI ballI)
  show "parse_source_field rt (JList (map JDict items)) =
     map (\<lambda>item. JDict (source_of_object rt item))
       (filter (\<lambda>item. truthy rt (dict_get (source_of_object rt item) ''url'' JNull)
                      \<or> truthy rt (dict_get (source_of_object rt item) ''title'' JNull)) items)"
  proof -
    have "parse_source_field rt (JList (map JDict items)) =
            concat (map (parse_list_item rt) (map JDict items))"
      by (cases items) (simp_all add: parse_source_field_def)
    then show ?thesis by (simp only: parse_list_items_dicts)
  qed
next
  show "parse_source_field rt (JDict item) =
       (if truthy rt (dict_get (source_of_object rt item) ''url'' JNull)
           \<or> truthy rt (dict_get (source_of_object rt item) ''title'' JNull)
        then [JDict (source_of_object rt item)] else [])"
    by (cases item) (simp_all add: parse_source_field_def object_sources_def Let_def source_of_object_empty)
next
  assume none: "map_of item ''title'' = None \<and> map_of item ''url'' = None \<and> map_of item ''link'' = None
        \<and> map_of item ''source'' = None"
  then have "\<not> truthy rt (dict_get (source_of_object rt item) ''url'' JNull)"
    and "\<not> truthy rt (dict_get (source_of_object rt item) ''title'' JNull)"
    by (simp_all add: source_of_object_def dict_get_def py_or_def)
  then show "parse_source_field rt (JDict item) = []" and "parse_source_field rt (JList [JDict item]) = []"
    by (simp_all add: parse_source_field_def object_sources_def Let_def)
next
  assume "metadata_at metadata_list i = Inr (JDict metadata) \<and> distance_at distances i = Inr distance
        \<and> score_of rt distance = Inr score"
  then show "parse_document rt cid ct metadata_list distances (i, doc_text) =
             Inr (if truthy rt (metadata_title rt metadata) \<or> snippet_of rt doc_text \<noteq> []
                     \<or> truthy rt (metadata_url rt metadata)
                  then [JDict (document_source rt cid ct metadata doc_text score)] else [])"
    using parse_document_built by blast
next
  assume "\<forall>md. metadata_at metadata_list i \<noteq> Inr (JDict md)"
  then show "parse_document rt cid ct metadata_list distances (i, doc_text) = Inl AttributeError"
    by (rule parse_document_not_built(1))
next
  assume "metadata_at metadata_list i = Inr (JDict metadata) \<and> distance_at distances i = Inr distance
        \<and> score_of rt distance = Inl e"
  then show "parse_document rt cid ct metadata_list distances (i, doc_text) = Inl e"
    using parse_document_not_built(2) by blast
next
  fix r
  assume "r \<in> set (parse_openwebui_sources rt sources_data)"
  then show "\<exists>kvs. r = JDict kvs
           \<and> (truthy rt (dict_get kvs ''title'' JNull) \<or> truthy rt (dict_get kvs ''snippet'' JNull)
                \<or> truthy rt (dict_get kvs ''url'' JNull))"
    by (rule openwebui_records)
next
  assume a: "(\<forall>g \<in> set good_groups. snd (parse_group rt g) = None)
        \<and> info_get rt (dict_get source_group ''source'' (JDict [])) ''id'' = Inr collection_id
        \<and> info_get rt (dict_get source_group ''source'' (JDict [])) ''type'' = Inr collection_type
        \<and> as_list rt (dict_get source_group ''document'' (JList [])) = good_docs @ doc # later_docs
        \<and> (\<forall>j < length good_docs. \<exists>out.
              parse_document rt collection_id collection_type
                (as_list rt (dict_get source_group ''metadata'' (JList [])))
                (as_list rt (dict_get source_group ''distances'' (JList []))) (j, good_docs ! j) = Inr out)
        \<and> metadata_at (as_list rt (dict_get source_group ''metadata'' (JList []))) (length good_docs)
            = Inr (JDict md_here)
        \<and> distance_at (as_list rt (dict_get source_group ''distances'' (JList []))) (length good_docs)
            = Inr distance_here
        \<and> score_of rt distance_here = Inr score_here
        \<and> (truthy rt (metadata_title rt md_here) \<or> snippet_of rt doc \<noteq> []
             \<or> truthy rt (metadata_url rt md_here))"
  show "JDict (document_source rt collection_id collection_type md_here doc score_here)
             \<in> set (parse_openwebui_sources rt (JList (good_groups @ JDict source_group # later_groups)))"
    by (rule openwebui_retains [where distance = distance_here]) (use a in blast)+
next
  assume nonempty: "snippet_text \<noteq> []"
  then have snip: "snippet_of rt (JStr snippet_text) \<noteq> []"
    by (simp add: snippet_of_def)
  then show "parse_openwebui_sources rt (JList [JDict [(''document'', JList [JStr snippet_text])]]) =
             [JDict (document_source rt (JStr '''') (JStr '''') [] (JStr snippet_text) (JInt 0))]"
    by (simp add: parse_openwebui_sources_def parse_group_def info_get_def as_list_def
          enumerate_eq_zip emit_def parse_document_eq score_of_def dict_get_def)
next
  show "dict_get (document_source rt (JStr '''') (JStr '''') [] (JStr snippet_text) (JInt 0)) ''title'' JNull = JStr ''''"
    by (simp add: document_source_def metadata_title_def dict_get_def py_or_def)
next
  show "dict_get (document_source rt (JStr '''') (JStr '''') [] (JStr snippet_text) (JInt 0)) ''url'' JNull = JStr ''''"
    by (simp add: document_source_def metadata_url_def dict_get_def py_or_def)
qed

theorem admission_rules_witness:
  "parse_source_field example_runtime (JList [JDict [(''snippet'', JStr ''only a snippet'')]]) = []
   \<and> parse_source_field example_runtime (JDict [(''snippet'', JStr ''only a snippet'')]) = []
   \<and> parse_source_field example_runtime
        (JList [JDict [(''snippet'', JStr ''s''), (''link'', JStr ''http://l'')], JDict [(''text'', JStr ''t'')]])
      = [JDict [(''title'', JStr ''''), (''url'', JStr ''http://l''), (''snippet'', JStr ''s''), (''score'', JInt 0)]]
   \<and> parse_openwebui_sources example_runtime (JList [JDict [(''document'', JList [JStr ''only a snippet''])]])
      = [JDict [(''title'', JStr ''''), (''url'', JStr ''''), (''snippet'', JStr ''only a snippet''),
                (''score'', JInt 0), (''author'', JStr ''''), (''page'', JStr ''''),
                (''collection_id'', JStr ''''), (''collection_type'', JStr ''''),
                (''metadata'', JDict [])]]
   \<and> parse_openwebui_sources example_runtime
        (JList [JDict [(''source'', JDict [(''id'', JStr ''c1'')]),
                       (''document'', JList [JStr ''first'', JStr ''second'']),
                       (''distances'', JList [JFloat (1 / 5)])]])
      = [JDict (document_source example_runtime (JStr ''c1'') (JStr '''') [] (JStr ''first'') (JFloat (4 / 5))),
         JDict (document_source example_runtime (JStr ''c1'') (JStr '''') [] (JStr ''second'') (JInt 0))]
   \<and> JDict (document_source example_runtime (JStr ''c1'') (JStr '''') [] (JStr ''second'') (JInt 0))
        \<in> set (parse_openwebui_sources example_runtime
              (JList [JDict [(''source'', JDict [(''id'', JStr ''c1'')]),
                             (''document'', JList [JStr ''first'', JStr ''second'']),
                             (''distances'', JList [JFloat (1 / 5)])]]))
   \<and> parse_openwebui_sources example_runtime
        (JList [JDict [(''document'', JList [JStr ''first'']), (''distances'', JList [JStr ''0.2''])]])
      = []
   \<and> parse_openwebui_sources example_runtime
        (JList [JDict [(''document'', JList [JStr ''first'']), (''metadata'', JList [JNull])]])
      = []"
proof -
  let ?rt = example_runtime
  let ?group = "[(''source'', JDict [(''id'', JStr ''c1'')]),
                 (''document'', JList [JStr ''first'', JStr ''second'']),
                 (''distances'', JList [JFloat (1 / 5)])]"
  note defs = parse_openwebui_sources_def parse_group_def info_get_def as_list_def enumerate_eq_zip
    upt_rec emit_def parse_document_eq score_of_def snippet_of_def py_or_def dict_get_def
    metadata_title_def metadata_url_def
  have first: "parse_document ?rt (JStr ''c1'') (JStr '''') [] [JFloat (1 / 5)] (0, JStr ''first'')
      = Inr [JDict (document_source ?rt (JStr ''c1'') (JStr '''') [] (JStr ''first'') (JFloat (4 / 5)))]"
    by (simp add: defs example_runtime_def)
  have both: "parse_openwebui_sources ?rt (JList [JDict ?group])
      = [JDict (document_source ?rt (JStr ''c1'') (JStr '''') [] (JStr ''first'') (JFloat (4 / 5))),
         JDict (document_source ?rt (JStr ''c1'') (JStr '''') [] (JStr ''second'') (JInt 0))]"
    by (simp add: defs example_runtime_def)
  have member: "JDict (document_source ?rt (JStr ''c1'') (JStr '''') [] (JStr ''second'') (JInt 0))
        \<in> set (parse_openwebui_sources ?rt (JList [JDict ?group]))"
    using admission_rules [where rt = ?rt and good_groups = "[]" and source_group = ?group
        and collection_id = "JStr ''c1''" and collection_type = "JStr ''''"
        and good_docs = "[JStr ''first'']" and doc = "JStr ''second''" and later_docs = "[]"
        and md_here = "[]" and distance_here = "JInt 0" and score_here = "JInt 0"
        and later_groups = "[]"] first
    by (simp add: info_get_def as_list_def dict_get_def metadata_at_total distance_at_total
          score_of_def snippet_of_def)
  have bad_distance: "parse_openwebui_sources ?rt
        (JList [JDict [(''document'', JList [JStr ''first'']), (''distances'', JList [JStr ''0.2''])]]) = []"
    and bad_metadata: "parse_openwebui_sources ?rt
        (JList [JDict [(''document'', JList [JStr ''first'']), (''metadata'', JList [JNull])]]) = []"
    by (simp_all add: defs)
  show ?thesis
    using admission_rules [where rt = ?rt and items = "[[(''snippet'', JStr ''only a snippet'')]]"
             and item = "[(''snippet'', JStr ''only a snippet'')]" and snippet_text = "''only a snippet''"]
      admission_rules [where rt = ?rt
             and items = "[[(''snippet'', JStr ''s''), (''link'', JStr ''http://l'')], [(''text'', JStr ''t'')]]"
             and item = "[]" and snippet_text = "''x''"]
      both member bad_distance bad_metadata
    by (simp add: source_of_object_def document_source_def metadata_title_def metadata_url_def
          metadata_author_def page_info_def snippet_of_def py_or_def dict_get_def)
qed

end
